theory Spec2Isabelle
  imports Main
begin

section \<open>Go strings and the library functions the package calls\<close>

text \<open>
  A Go string is a sequence of bytes; it is modelled as \<^typ>\<open>string\<close>, a list of 8-bit
  characters. Text outside ASCII appears as its UTF-8 bytes: the middle dot U+00B7 is
  \<open>C2 B7\<close> and the check mark U+2705 is \<open>E2 9C 85\<close>.
\<close>

definition HasPrefix :: "string \<Rightarrow> string \<Rightarrow> bool" where
  \<comment> \<open>\<open>strings.HasPrefix(s, prefix)\<close>\<close>
  "HasPrefix s p = (length p \<le> length s \<and> take (length p) s = p)"

definition TrimPrefix :: "string \<Rightarrow> string \<Rightarrow> string" where
  \<comment> \<open>\<open>strings.TrimPrefix(s, prefix)\<close>\<close>
  "TrimPrefix s p = (if HasPrefix s p then drop (length p) s else s)"

text \<open>
  \<open>strings.Index(s, substr)\<close>: the byte index of the first occurrence, \<open>-1\<close> when there
  is none.
\<close>

fun Index :: "string \<Rightarrow> string \<Rightarrow> int" where
  "Index [] sub = (if sub = [] then 0 else - 1)"
| "Index (c # cs) sub =
     (if HasPrefix (c # cs) sub then 0
      else (let r = Index cs sub in if r < 0 then - 1 else r + 1))"

definition Contains :: "string \<Rightarrow> string \<Rightarrow> bool" where
  \<comment> \<open>\<open>strings.Contains(s, substr)\<close> is \<open>Index(s, substr) >= 0\<close>\<close>
  "Contains s sub = (0 \<le> Index s sub)"

text \<open>
  \<open>strings.Split(s, sep)\<close> for a non-empty separator, the only way the package calls it:
  the pieces between the non-overlapping occurrences of \<open>sep\<close>, found from the left;
  \<open>n\<close> occurrences give \<open>n + 1\<close> pieces. \<open>cur\<close> holds the bytes of the piece being read,
  last byte first. (With an empty separator Go cuts after every UTF-8 sequence; that
  call does not occur in the package and is not modelled: the bytes are then kept in one
  piece.)
\<close>

fun split_from :: "string \<Rightarrow> string \<Rightarrow> nat \<Rightarrow> string \<Rightarrow> string list" where
  "split_from sep cur skip [] = [rev cur]"
| "split_from sep cur (Suc k) (c # cs) = split_from sep cur k cs"
| "split_from sep cur 0 (c # cs) =
     (if sep \<noteq> [] \<and> HasPrefix (c # cs) sep
      then rev cur # split_from sep [] (length sep - 1) cs
      else split_from sep (c # cur) 0 cs)"

definition Split :: "string \<Rightarrow> string \<Rightarrow> string list" where
  "Split s sep = split_from sep [] 0 s"

text \<open>
  Trimming. \<open>strings.TrimLeft(s, cutset)\<close> removes leading runes that occur in the cutset,
  \<open>strings.TrimSpace\<close> removes leading and then trailing runes for which
  \<open>unicode.IsSpace\<close> holds. Go decodes one rune at the front (or at the back) of the
  string at a time; the front of a string decodes to a given valid rune exactly when the
  string starts with that rune's UTF-8 encoding, and the back likewise with ends. So a set
  of runes is given here by the list of its encodings, and trimming removes, as long as
  there is one, an encoding the string starts with. Bytes that are no valid UTF-8 decode
  to U+FFFD, which is neither white space nor in the cutset used, and stop the trimming.
\<close>

function TrimLeftRunes :: "string list \<Rightarrow> string \<Rightarrow> string" where
  "TrimLeftRunes rs s =
     (case List.find (\<lambda>r. r \<noteq> [] \<and> HasPrefix s r) rs of
        None \<Rightarrow> s
      | Some r \<Rightarrow> TrimLeftRunes rs (drop (length r) s))"
  by pat_completeness auto
termination
proof (relation "measure (\<lambda>(rs, s). length s)")
  show "wf (measure (\<lambda>(rs, s). length s))" by simp
next
  fix rs :: "string list" and s x :: string
  assume found: "List.find (\<lambda>r. r \<noteq> [] \<and> HasPrefix s r) rs = Some x"
  from found have "x \<noteq> [] \<and> HasPrefix s x"
    by (induction rs) (simp_all split: if_splits)
  then have "length s - length x < length s"
    unfolding HasPrefix_def by (cases x) auto
  then show "((rs, drop (length x) s), (rs, s)) \<in> measure (\<lambda>(rs, s). length s)"
    by simp
qed

definition TrimRightRunes :: "string list \<Rightarrow> string \<Rightarrow> string" where
  "TrimRightRunes rs s = rev (TrimLeftRunes (map rev rs) (rev s))"

definition space_runes :: "string list" where
  \<comment> \<open>the white space of \<open>unicode.IsSpace\<close>, in UTF-8: tab, LF, VT, FF, CR, space, U+0085,
      U+00A0, U+1680, U+2000 to U+200A, U+2028, U+2029, U+202F, U+205F, U+3000\<close>
  "space_runes =
     [[CHR 0x09], [CHR 0x0A], [CHR 0x0B], [CHR 0x0C], [CHR 0x0D], [CHR 0x20],
      [CHR 0xC2, CHR 0x85], [CHR 0xC2, CHR 0xA0],
      [CHR 0xE1, CHR 0x9A, CHR 0x80],
      [CHR 0xE2, CHR 0x80, CHR 0x80], [CHR 0xE2, CHR 0x80, CHR 0x81],
      [CHR 0xE2, CHR 0x80, CHR 0x82], [CHR 0xE2, CHR 0x80, CHR 0x83],
      [CHR 0xE2, CHR 0x80, CHR 0x84], [CHR 0xE2, CHR 0x80, CHR 0x85],
      [CHR 0xE2, CHR 0x80, CHR 0x86], [CHR 0xE2, CHR 0x80, CHR 0x87],
      [CHR 0xE2, CHR 0x80, CHR 0x88], [CHR 0xE2, CHR 0x80, CHR 0x89],
      [CHR 0xE2, CHR 0x80, CHR 0x8A],
      [CHR 0xE2, CHR 0x80, CHR 0xA8], [CHR 0xE2, CHR 0x80, CHR 0xA9],
      [CHR 0xE2, CHR 0x80, CHR 0xAF], [CHR 0xE2, CHR 0x81, CHR 0x9F],
      [CHR 0xE3, CHR 0x80, CHR 0x80]]"

definition TrimSpace :: "string \<Rightarrow> string" where
  "TrimSpace s = TrimRightRunes space_runes (TrimLeftRunes space_runes s)"

definition ReplaceAll :: "string \<Rightarrow> char \<Rightarrow> char \<Rightarrow> string" where
  \<comment> \<open>\<open>strings.ReplaceAll(s, old, new)\<close> for one-byte \<open>old\<close> and \<open>new\<close>\<close>
  "ReplaceAll s old new = map (\<lambda>c. if c = old then new else c) s"

section \<open>The annotation parser\<close>

definition meta_sep :: string where
  \<comment> \<open>the delimiter: space, middle dot (U+00B7), space\<close>
  "meta_sep = [CHR 0x20, CHR 0xC2, CHR 0xB7, CHR 0x20]"

definition check_cutset :: "string list" where
  \<comment> \<open>the cutset of the \<open>TrimLeft\<close> call: the check mark U+2705 and the space\<close>
  "check_cutset = [[CHR 0xE2, CHR 0x9C, CHR 0x85], [CHR 0x20]]"

definition size_bearing :: "string \<Rightarrow> bool" where
  \<comment> \<open>the test of the loop body, on the trimmed segment\<close>
  "size_bearing part = (Contains part ''MB'' \<or> Contains part ''KB'' \<or> Contains part ''GB'')"

text \<open>
  The \<open>for i := 1; i < len(parts); i++\<close> loop, with its variables \<open>formatIdx\<close> and
  \<open>sizeIdx\<close>; it returns their values at the loop's exit (the \<open>break\<close> or the end).
  The loop starts at \<open>i = 1\<close> and counts upwards, so \<open>parts[i]\<close> is always in range.
\<close>

function meta_loop :: "string list \<Rightarrow> int \<Rightarrow> int \<Rightarrow> int \<Rightarrow> int \<times> int" where
  "meta_loop parts formatIdx sizeIdx i =
     (if i < int (length parts) then
        (let part = TrimSpace (parts ! nat i) in
         if size_bearing part
         then (if formatIdx = - 1 \<and> 0 < i then i - 1 else formatIdx, i)
         else meta_loop parts formatIdx sizeIdx (i + 1))
      else (formatIdx, sizeIdx))"
  by pat_completeness auto
termination
  by (relation "measure (\<lambda>(parts, f, s, i). nat (int (length parts) - i))") auto

definition extractMetaInformation :: "string \<Rightarrow> string \<times> string \<times> string" where
  "extractMetaInformation meta =
     (let parts = Split meta meta_sep in
      if length parts < 3 then ([], [], [])
      else
        (let languagePart = TrimSpace (parts ! 0);
             idx = Index languagePart ''['';
             language =
               (if 0 < idx
                then TrimLeftRunes check_cutset (TrimSpace (take (nat idx) languagePart))
                else []);
             (formatIdx, sizeIdx) = meta_loop parts (- 1) (- 1) 1;
             format =
               (if 0 < formatIdx \<and> formatIdx < int (length parts)
                then TrimSpace (parts ! nat formatIdx) else []);
             size =
               (if 0 < sizeIdx \<and> sizeIdx < int (length parts)
                then TrimSpace (parts ! nat sizeIdx) else [])
         in (language, format, size)))"

section \<open>More of the library: formatting, escaping, paths\<close>

text \<open>
  \<open>fmt.Sprintf\<close> for a format whose only verbs are \<open>%s\<close>, as in the two endpoint
  constants: each \<open>%s\<close> is replaced by the next argument.
\<close>

fun Sprintf :: "string \<Rightarrow> string list \<Rightarrow> string" where
  "Sprintf (c # d # cs) args =
     (if c = CHR ''%'' \<and> d = CHR ''s''
      then (case args of
              [] \<Rightarrow> ''%!s(MISSING)'' @ Sprintf cs []
            | a # as \<Rightarrow> a @ Sprintf cs as)
      else c # Sprintf (d # cs) args)"
| "Sprintf cs args = cs"

definition AnnasSearchEndpoint :: string where
  "AnnasSearchEndpoint = ''https://annas-archive.org/search?q=%s''"

definition AnnasDownloadEndpoint :: string where
  "AnnasDownloadEndpoint = ''https://annas-archive.org/dyn/api/fast_download.json?md5=%s&key=%s''"

text \<open>
  \<open>url.QueryEscape\<close>: letters, digits and \<open>- _ . ~\<close> stay, a space becomes \<open>+\<close>, every
  other byte becomes \<open>%XX\<close> with upper-case hexadecimal digits.
\<close>

definition upperhex :: "nat \<Rightarrow> char" where
  "upperhex n = ''0123456789ABCDEF'' ! (n mod 16)"

definition shouldEscape :: "char \<Rightarrow> bool" where
  "shouldEscape c =
     (c \<notin> set ''abcdefghijklmnopqrstuvwxyzABCDEFGHIJKLMNOPQRSTUVWXYZ0123456789-_.~'')"

definition QueryEscape :: "string \<Rightarrow> string" where
  "QueryEscape s =
     concat (map (\<lambda>c. if c = CHR '' '' then ''+''
                       else if shouldEscape c
                       then [CHR ''%'', upperhex (of_char c div 16), upperhex (of_char c mod 16)]
                       else [c]) s)"

text \<open>\<open>strings.Join(elems, sep)\<close>.\<close>

fun strings_Join :: "string list \<Rightarrow> string \<Rightarrow> string" where
  "strings_Join [] sep = []"
| "strings_Join [a] sep = a"
| "strings_Join (a # b # es) sep = a @ sep @ strings_Join (b # es) sep"

text \<open>
  \<open>filepath.Clean\<close> and \<open>filepath.Join\<close> where the separator is \<open>/\<close>. \<open>Clean\<close> reads
  the path element by element: empty elements (doubled separators) and \<open>.\<close> are dropped;
  \<open>..\<close> removes the element before it when there is one that is not itself \<open>..\<close>, is
  dropped at the root of a rooted path, and is kept otherwise. \<open>out\<close> holds the elements
  kept so far, last one first. An empty result is \<open>.\<close>. \<open>Join\<close> ignores leading
  empty elements, joins the others with the separator and cleans the result.
\<close>

fun clean_elems :: "bool \<Rightarrow> string list \<Rightarrow> string list \<Rightarrow> string list" where
  "clean_elems rooted out [] = rev out"
| "clean_elems rooted out (e # es) =
     (if e = [] \<or> e = ''.'' then clean_elems rooted out es
      else if e = ''..'' then
        (case out of
           [] \<Rightarrow> if rooted then clean_elems rooted [] es else clean_elems rooted [''..''] es
         | t # ts \<Rightarrow> if t = ''..'' then clean_elems rooted (''..'' # out) es
                     else clean_elems rooted ts es)
      else clean_elems rooted (e # out) es)"

definition Clean :: "string \<Rightarrow> string" where
  "Clean path =
     (if path = [] then ''.''
      else
        (let rooted = (hd path = CHR ''/'');
             elems = clean_elems rooted [] (Split path ''/'');
             out = (if rooted then ''/'' else []) @ strings_Join elems ''/''
         in if out = [] then ''.'' else out))"

definition filepath_Join :: "string list \<Rightarrow> string" where
  "filepath_Join elem =
     (case dropWhile (\<lambda>e. e = []) elem of
        [] \<Rightarrow> []
      | es \<Rightarrow> Clean (strings_Join es ''/''))"

section \<open>Errors, books and the world outside\<close>

text \<open>
  A Go \<open>error\<close> value is either one the package makes itself with \<open>errors.New\<close> or one
  that a library call (\<open>net/http\<close>, \<open>encoding/json\<close>, \<open>os\<close>, \<open>io\<close>, colly) returned
  and the package hands on. A nil error is \<open>None\<close>.
\<close>

datatype go_error = errors_New string | lib_error string

text \<open>
  Modelled from the spec: the declarations of the types \<open>Book\<close> and
  \<open>fastDownloadResponse\<close> are not in the source file; the fields are the ones that the
  source file reads and writes, all strings.
\<close>

record Book =
  Title :: string
  Authors :: string
  Publisher :: string
  Language :: string
  Format :: string
  Size :: string
  URL :: string
  Hash :: string

record fastDownloadResponse =
  DownloadURL :: string
  Error :: string

text \<open>
  A response body is a stream: \<open>body_data\<close> are the bytes that reading it delivers,
  \<open>body_err\<close> is the error that ends the reading early, if any (a transfer that fails
  mid-way delivers the bytes received before the failure and then the error).
\<close>

record body =
  body_data :: string
  body_err :: "go_error option"

record response =
  StatusCode :: int
  Body :: body

text \<open>
  What \<open>Download\<close> changes: the files (path to contents) and, to tell which requests
  were made, the list of the URLs given to \<open>http.Get\<close>, in order.
\<close>

record world =
  files :: "string \<rightharpoonup> string"
  requests :: "string list"

text \<open>
  What the outside answers: the outcome of a GET for each URL, the outcome of decoding
  a body as JSON into a \<open>fastDownloadResponse\<close>, and the error with which \<open>os.Create\<close>
  fails for a path, if it does.
\<close>

record net =
  http_Get :: "string \<Rightarrow> go_error + response"
  json_Decode :: "body \<Rightarrow> go_error + fastDownloadResponse"
  create_err :: "string \<Rightarrow> go_error option"

definition os_Create :: "net \<Rightarrow> string \<Rightarrow> world \<Rightarrow> go_error option \<times> world" where
  \<comment> \<open>\<open>os.Create\<close> makes the file or truncates the one that is there\<close>
  "os_Create env path w =
     (case create_err env path of
        Some err \<Rightarrow> (Some err, w)
      | None \<Rightarrow> (None, w\<lparr>files := (files w)(path \<mapsto> [])\<rparr>))"

definition io_Copy :: "string \<Rightarrow> body \<Rightarrow> world \<Rightarrow> go_error option \<times> world" where
  \<comment> \<open>\<open>io.Copy(out, body)\<close>, \<open>out\<close> being the open file at \<open>path\<close>: the bytes delivered are
      appended to the file, the error that ended the reading is returned\<close>
  "io_Copy path b w =
     (body_err b,
      w\<lparr>files := (files w)(path \<mapsto>
           (case files w path of None \<Rightarrow> [] | Some old \<Rightarrow> old) @ body_data b)\<rparr>)"

definition http_Get_logged :: "net \<Rightarrow> string \<Rightarrow> world \<Rightarrow> (go_error + response) \<times> world" where
  \<comment> \<open>\<open>http.Get(url)\<close>: the request is recorded, the outside answers\<close>
  "http_Get_logged env url w = (http_Get env url, w\<lparr>requests := requests w @ [url]\<rparr>)"

section \<open>Download\<close>

text \<open>
  The method \<open>Download\<close>, statement by statement; every \<open>return\<close> of the source is a
  branch. The deferred \<open>Close\<close> calls change nothing that is modelled here.
\<close>

definition Download ::
  "net \<Rightarrow> Book \<Rightarrow> string \<Rightarrow> string \<Rightarrow> world \<Rightarrow> go_error option \<times> world" where
  "Download env b secretKey folderPath w =
     (let apiURL = Sprintf AnnasDownloadEndpoint [Hash b, secretKey];
          (got, w1) = http_Get_logged env apiURL w
      in case got of
           Inl err \<Rightarrow> (Some err, w1)
         | Inr resp \<Rightarrow>
             (case json_Decode env (Body resp) of
                Inl err \<Rightarrow> (Some err, w1)
              | Inr apiResp \<Rightarrow>
                  if DownloadURL apiResp = [] then
                    (if Error apiResp \<noteq> [] then (Some (errors_New (Error apiResp)), w1)
                     else (Some (errors_New ''failed to get download URL''), w1))
                  else
                    (let (got2, w2) = http_Get_logged env (DownloadURL apiResp) w1
                     in case got2 of
                          Inl err \<Rightarrow> (Some err, w2)
                        | Inr downloadResp \<Rightarrow>
                            if StatusCode downloadResp \<noteq> 200
                            then (Some (errors_New ''failed to download file''), w2)
                            else
                              (let filename = Title b @ ''.'' @ Format b;
                                   filename = ReplaceAll filename (CHR ''/'') (CHR ''_'');
                                   filePath = filepath_Join [folderPath, filename];
                                   (cerr, w3) = os_Create env filePath w2
                               in case cerr of
                                    Some err \<Rightarrow> (Some err, w3)
                                  | None \<Rightarrow> io_Copy filePath (Body downloadResp) w3))))"

section \<open>FindBook\<close>

text \<open>
  An anchor element of the fetched page, as far as \<open>FindBook\<close> looks at it: its
  attributes, and the texts that the four goquery selections of the loop body yield,
  starting from the element's parent (title link, author link, publisher link,
  annotation block).
\<close>

record html_element =
  attributes :: "(string \<times> string) list"
  title_text :: string
  authors_text :: string
  publisher_text :: string
  meta_text :: string

definition Attr :: "html_element \<Rightarrow> string \<Rightarrow> string" where
  \<comment> \<open>\<open>e.Attr(k)\<close>: the value of the first attribute with that key, else the empty string\<close>
  "Attr e k = (case map_of (attributes e) k of None \<Rightarrow> [] | Some v \<Rightarrow> v)"

text \<open>
  The collector, seen from \<open>FindBook\<close>: \<open>Visit\<close> followed by \<open>Wait\<close> either fails with
  an error (then no element reaches a callback) or delivers the page, given by its \<open>a\<close>
  elements in document order. \<open>AbsoluteURL\<close> resolves a link against the page's
  address.
\<close>

record collector =
  Visit :: "string \<Rightarrow> go_error + html_element list"
  AbsoluteURL :: "string \<Rightarrow> string"

definition primary_class :: string where
  "primary_class = ''custom-a block mr-2 sm:mr-4 hover:opacity-80''"

definition selected :: "html_element \<Rightarrow> bool" where
  \<comment> \<open>the selector \<open>a[href^='/md5/']\<close> of the \<open>OnHTML\<close> registration\<close>
  "selected e = (map_of (attributes e) ''href'' \<noteq> None \<and> HasPrefix (Attr e ''href'') ''/md5/'')"

definition OnHTML :: "html_element list \<Rightarrow> html_element \<Rightarrow> html_element list" where
  \<comment> \<open>the callback: it appends the element to \<open>bookList\<close> when the class is the cover link's\<close>
  "OnHTML bookList e =
     (if Attr e ''class'' = primary_class then bookList @ [e] else bookList)"

definition parse_element :: "collector \<Rightarrow> html_element \<Rightarrow> Book" where
  \<comment> \<open>the body of the loop over \<open>bookList\<close>\<close>
  "parse_element c e =
     (let title = title_text e;
          authors = TrimSpace (authors_text e);
          publisher = TrimSpace (publisher_text e);
          meta = meta_text e;
          (language, format, size) = extractMetaInformation meta;
          link = Attr e ''href'';
          hash = TrimPrefix link ''/md5/''
      in \<lparr>Title = TrimSpace title, Authors = authors, Publisher = publisher,
          Language = language, Format = format, Size = size,
          URL = AbsoluteURL c link, Hash = hash\<rparr>)"

definition FindBook :: "collector \<Rightarrow> string \<Rightarrow> Book list \<times> go_error option" where
  "FindBook c query =
     (let fullURL = Sprintf AnnasSearchEndpoint [QueryEscape query];
          bookList = (case Visit c fullURL of
                        Inl err \<Rightarrow> []
                      | Inr page \<Rightarrow> foldl OnHTML [] (filter selected page));
          bookListParsed = map (parse_element c) bookList
      in (bookListParsed, None))"

text \<open>Sample annotations: two languages; a size at index 1; no size at all; two segments.\<close>

definition ex_two_lang :: string where
  "ex_two_lang = [CHR 0xE2, CHR 0x9C, CHR 0x85] @ '' English [en]'' @ meta_sep @ ''Hindi [hi]'' @ meta_sep
      @ ''EPUB'' @ meta_sep @ ''0.7MB'' @ meta_sep @ ''2015''"

definition ex_no_format :: string where
  "ex_no_format = ''English [en]'' @ meta_sep @ ''0.7MB'' @ meta_sep @ ''2015''"

definition ex_no_size :: string where
  "ex_no_size = [CHR 0xE2, CHR 0x9C, CHR 0x85] @ '' English [en]'' @ meta_sep @ ''EPUB'' @ meta_sep @ ''2015''"

definition ex_no_bracket :: string where
  "ex_no_bracket = ''EPUB'' @ meta_sep @ ''1MB'' @ meta_sep @ ''2015''"

definition ex_two_segments :: string where
  "ex_two_segments = ''English [en]'' @ meta_sep @ ''0.7MB''"

section \<open>Sample inputs\<close>

text \<open>
  A book whose title has a slash, an empty world and one where the destination file is
  already there, and an outside in which the resolver answers \<open>answer\<close>, the resolved
  address answers \<open>fetched\<close>, and every file can be created.
\<close>

definition dune :: Book where
  "dune = \<lparr>Title = ''Dune/Messiah'', Authors = ''Frank Herbert'', Publisher = ''Ace'',
            Language = ''English'', Format = ''epub'', Size = ''0.7MB'',
            URL = ''https://annas-archive.org/md5/abc123'', Hash = ''abc123''\<rparr>"

definition w_empty :: world where
  "w_empty = \<lparr>files = Map.empty, requests = []\<rparr>"

definition w_old :: world where
  "w_old = \<lparr>files = [''/tmp/books/Dune_Messiah.epub'' \<mapsto> ''an older file''], requests = []\<rparr>"

definition sample_net :: "fastDownloadResponse \<Rightarrow> response \<Rightarrow> net" where
  "sample_net answer fetched =
     \<lparr>http_Get = (\<lambda>u. if HasPrefix u ''https://annas-archive.org/''
                       then Inr \<lparr>StatusCode = 200, Body = \<lparr>body_data = ''{}'', body_err = None\<rparr>\<rparr>
                       else Inr fetched),
      json_Decode = (\<lambda>b. Inr answer),
      create_err = (\<lambda>p. None)\<rparr>"

definition resolved :: fastDownloadResponse where
  "resolved = \<lparr>DownloadURL = ''http://x/file.epub'', Error = []\<rparr>"

definition fetched_with :: "int \<Rightarrow> string \<Rightarrow> go_error option \<Rightarrow> response" where
  "fetched_with st bytes err = \<lparr>StatusCode = st, Body = \<lparr>body_data = bytes, body_err = err\<rparr>\<rparr>"

text \<open>
  A result page with the cover link and the title link of one record, a cover link whose
  href is the bare prefix, and a link to somewhere else; a collector that delivers it,
  and one whose visit fails.
\<close>

definition cover_link :: "string \<Rightarrow> html_element" where
  "cover_link href =
     \<lparr>attributes = [(''href'', href), (''class'', primary_class)],
      title_text = '' Dune '', authors_text = '' Frank Herbert '',
      publisher_text = '' Ace '', meta_text = ex_two_lang\<rparr>"

definition other_link :: "string \<Rightarrow> html_element" where
  "other_link href =
     \<lparr>attributes = [(''href'', href), (''class'', ''line-clamp-[3]'')],
      title_text = '' Dune '', authors_text = [], publisher_text = [], meta_text = []\<rparr>"

definition sample_page :: "html_element list" where
  "sample_page =
     [cover_link ''/md5/abc123'', other_link ''/md5/abc123'', other_link ''/search?q=x'',
      cover_link ''/md5/'']"

definition online :: collector where
  "online = \<lparr>Visit = (\<lambda>u. Inr sample_page),
             AbsoluteURL = (\<lambda>l. ''https://annas-archive.org'' @ l)\<rparr>"

definition offline :: collector where
  "offline = \<lparr>Visit = (\<lambda>u. Inl (lib_error ''dial tcp: no route to host'')),
              AbsoluteURL = (\<lambda>l. ''https://annas-archive.org'' @ l)\<rparr>"

section \<open>Properties of the annotation parser\<close>

subsection \<open>The library functions and the loop\<close>

lemma Index_absent: "c \<notin> set s \<Longrightarrow> Index s [c] = - 1"
  by (induction s) (auto simp: HasPrefix_def Let_def)

lemma Index_first: "c \<notin> set pre \<Longrightarrow> Index (pre @ c # rest) [c] = int (length pre)"
  by (induction pre) (auto simp: HasPrefix_def Let_def)

lemma meta_loop_none:
  "\<forall>j. nat i \<le> j \<and> j < length parts \<longrightarrow> \<not> size_bearing (TrimSpace (parts ! j)) \<Longrightarrow>
   0 \<le> i \<Longrightarrow> meta_loop parts f s i = (f, s)"
proof (induction parts f s i rule: meta_loop.induct)
  case (1 parts formatIdx sizeIdx i)
  show ?case
  proof (cases "i < int (length parts)")
    case False
    then show ?thesis by (subst meta_loop.simps) simp
  next
    case True
    with "1.prems" have here: "\<not> size_bearing (TrimSpace (parts ! nat i))"
      by auto
    have rest: "\<forall>j. nat (i + 1) \<le> j \<and> j < length parts \<longrightarrow>
        \<not> size_bearing (TrimSpace (parts ! j))"
      using "1.prems" by auto
    have "meta_loop parts formatIdx sizeIdx (i + 1) = (formatIdx, sizeIdx)"
      using "1.IH"[OF True refl here rest] "1.prems"(2) by simp
    with True here show ?thesis
      by (subst meta_loop.simps) simp
  qed
qed

lemma meta_loop_first:
  "1 \<le> i \<Longrightarrow> i \<le> int k \<Longrightarrow> k < length parts \<Longrightarrow> size_bearing (TrimSpace (parts ! k)) \<Longrightarrow>
   \<forall>j. nat i \<le> j \<and> j < k \<longrightarrow> \<not> size_bearing (TrimSpace (parts ! j)) \<Longrightarrow>
   meta_loop parts (- 1) s i = (int k - 1, int k)"
proof (induction parts "- 1 :: int" s i rule: meta_loop.induct)
  case (1 parts sizeIdx i)
  have inr: "i < int (length parts)" using "1.prems" by simp
  show ?case
  proof (cases "i = int k")
    case True
    with "1.prems" inr show ?thesis
      by (subst meta_loop.simps) simp
  next
    case False
    with "1.prems" have lt: "i < int k" by simp
    with "1.prems" have here: "\<not> size_bearing (TrimSpace (parts ! nat i))"
      by auto
    have rest: "\<forall>j. nat (i + 1) \<le> j \<and> j < k \<longrightarrow> \<not> size_bearing (TrimSpace (parts ! j))"
      using "1.prems" by auto
    have "meta_loop parts (- 1) sizeIdx (i + 1) = (int k - 1, int k)"
      using "1.hyps"[OF inr refl here _ _ "1.prems"(3,4) rest] lt "1.prems"(1) by simp
    with inr here show ?thesis
      by (subst meta_loop.simps) simp
  qed
qed

lemma extract_unfold:
  assumes "parts = Split meta meta_sep" and "3 \<le> length parts"
    and "meta_loop parts (- 1) (- 1) 1 = (formatIdx, sizeIdx)"
  shows "extractMetaInformation meta =
     ((if 0 < Index (TrimSpace (parts ! 0)) ''[''
       then TrimLeftRunes check_cutset
              (TrimSpace (take (nat (Index (TrimSpace (parts ! 0)) ''['')) (TrimSpace (parts ! 0))))
       else []),
      (if 0 < formatIdx \<and> formatIdx < int (length parts)
       then TrimSpace (parts ! nat formatIdx) else []),
      (if 0 < sizeIdx \<and> sizeIdx < int (length parts)
       then TrimSpace (parts ! nat sizeIdx) else []))"
proof -
  have "\<not> length (Split meta meta_sep) < 3" using assms(1,2) by simp
  then show ?thesis
    unfolding extractMetaInformation_def Let_def
    using assms(1,3) by simp
qed

subsection \<open>Fewer than three segments\<close>

text \<open>
  C6. An annotation that splits into fewer than three segments on the delimiter gives
  the empty string for language, format and size. The function has no error result: this
  is an ordinary return.
\<close>

theorem extractMetaInformation_few_segments:
  "length (Split meta meta_sep) < 3 \<Longrightarrow> extractMetaInformation meta = ([], [], [])"
  by (simp add: extractMetaInformation_def)

theorem extractMetaInformation_few_segments_witness:
  "length (Split ex_two_segments meta_sep) < 3 \<and>
   extractMetaInformation ex_two_segments = ([], [], [])"
proof -
  have h: "length (Split ex_two_segments meta_sep) < 3" by code_simp
  from h extractMetaInformation_few_segments[OF h] show ?thesis by simp
qed

subsection \<open>Format and size\<close>

text \<open>
  C5. For an annotation with at least three segments: when \<open>i\<close> is the smallest index
  from 1 on whose trimmed segment contains \<open>MB\<close>, \<open>KB\<close> or \<open>GB\<close>, the size is the
  trimmed segment at \<open>i\<close> and the format is the trimmed segment at \<open>i - 1\<close> when
  \<open>2 \<le> i\<close> and empty when \<open>i = 1\<close>; when there is no such index, format and size
  are both empty. Nothing in the statement depends on how many language segments come
  before the format.
\<close>

theorem extractMetaInformation_format_size:
  assumes "parts = Split meta meta_sep" and "3 \<le> length parts"
  shows "(\<forall>i. 1 \<le> i \<and> i < length parts \<and> size_bearing (TrimSpace (parts ! i)) \<and>
              (\<forall>j. 1 \<le> j \<and> j < i \<longrightarrow> \<not> size_bearing (TrimSpace (parts ! j))) \<longrightarrow>
            snd (extractMetaInformation meta) =
              (if 2 \<le> i then TrimSpace (parts ! (i - 1)) else [], TrimSpace (parts ! i)))
       \<and> ((\<forall>i. 1 \<le> i \<and> i < length parts \<longrightarrow> \<not> size_bearing (TrimSpace (parts ! i))) \<longrightarrow>
            snd (extractMetaInformation meta) = ([], []))"
proof (intro conjI allI impI)
  fix i
  assume h: "1 \<le> i \<and> i < length parts \<and> size_bearing (TrimSpace (parts ! i)) \<and>
             (\<forall>j. 1 \<le> j \<and> j < i \<longrightarrow> \<not> size_bearing (TrimSpace (parts ! j)))"
  then have "meta_loop parts (- 1) (- 1) 1 = (int i - 1, int i)"
    by (intro meta_loop_first) auto
  moreover have "nat (int i - 1) = i - 1" by simp
  ultimately show "snd (extractMetaInformation meta) =
      (if 2 \<le> i then TrimSpace (parts ! (i - 1)) else [], TrimSpace (parts ! i))"
    using assms h by (auto simp: extractMetaInformation_def Let_def)
next
  assume "\<forall>i. 1 \<le> i \<and> i < length parts \<longrightarrow> \<not> size_bearing (TrimSpace (parts ! i))"
  then have "meta_loop parts (- 1) (- 1) 1 = (- 1, - 1)"
    by (intro meta_loop_none) auto
  then show "snd (extractMetaInformation meta) = ([], [])"
    using assms by (simp add: extractMetaInformation_def Let_def)
qed

theorem extractMetaInformation_format_size_witness:
  "snd (extractMetaInformation ex_two_lang) = (''EPUB'', ''0.7MB'')
   \<and> snd (extractMetaInformation ex_no_format) = ([], ''0.7MB'')
   \<and> snd (extractMetaInformation ex_no_size) = ([], [])"
proof -
  let ?p = "[[CHR 0xE2, CHR 0x9C, CHR 0x85] @ '' English [en]'', ''Hindi [hi]'', ''EPUB'', ''0.7MB'', ''2015'']"
  let ?q = "[''English [en]'', ''0.7MB'', ''2015'']"
  let ?r = "[[CHR 0xE2, CHR 0x9C, CHR 0x85] @ '' English [en]'', ''EPUB'', ''2015'']"
  have p: "?p = Split ex_two_lang meta_sep" by code_simp
  have q: "?q = Split ex_no_format meta_sep" by code_simp
  have r: "?r = Split ex_no_size meta_sep" by code_simp
  have yes: "size_bearing (TrimSpace ''0.7MB'')" by code_simp
  have no: "\<not> size_bearing (TrimSpace ''Hindi [hi]'')" "\<not> size_bearing (TrimSpace ''EPUB'')"
    "\<not> size_bearing (TrimSpace ''2015'')"
    by code_simp+
  have val: "TrimSpace ''EPUB'' = ''EPUB''" "TrimSpace ''0.7MB'' = ''0.7MB''" by code_simp+
  have "1 \<le> (3::nat) \<and> 3 < length ?p \<and> size_bearing (TrimSpace (?p ! 3)) \<and>
        (\<forall>j. 1 \<le> j \<and> j < 3 \<longrightarrow> \<not> size_bearing (TrimSpace (?p ! j)))"
  proof (intro conjI allI impI)
    fix j :: nat assume "1 \<le> j \<and> j < 3"
    then have "j = 1 \<or> j = 2" by auto
    then show "\<not> size_bearing (TrimSpace (?p ! j))" using no by auto
  qed (simp_all add: yes)
  with extractMetaInformation_format_size[OF p, THEN conjunct1, rule_format, of 3]
  have one: "snd (extractMetaInformation ex_two_lang) = (''EPUB'', ''0.7MB'')"
    by (simp add: val)
  have "1 \<le> (1::nat) \<and> 1 < length ?q \<and> size_bearing (TrimSpace (?q ! 1)) \<and>
        (\<forall>j. 1 \<le> j \<and> j < 1 \<longrightarrow> \<not> size_bearing (TrimSpace (?q ! j)))"
    by (simp add: yes)
  with extractMetaInformation_format_size[OF q, THEN conjunct1, rule_format, of 1]
  have two: "snd (extractMetaInformation ex_no_format) = ([], ''0.7MB'')"
    by (simp add: val)
  have "\<forall>i. 1 \<le> i \<and> i < length ?r \<longrightarrow> \<not> size_bearing (TrimSpace (?r ! i))"
  proof (intro allI impI)
    fix i :: nat assume "1 \<le> i \<and> i < length ?r"
    then have "i = 1 \<or> i = 2" by auto
    then show "\<not> size_bearing (TrimSpace (?r ! i))" using no by auto
  qed
  with extractMetaInformation_format_size[OF r, THEN conjunct2]
  have three: "snd (extractMetaInformation ex_no_size) = ([], [])"
    by simp
  from one two three show ?thesis by simp
qed

subsection \<open>Language\<close>

text \<open>
  C7. For an annotation with at least three segments the language comes from the first
  segment alone. With the first segment trimmed: when it has no \<open>[\<close>, the language is
  empty; when its first \<open>[\<close> stands after a non-empty text \<open>pre\<close>, the language is
  \<open>pre\<close> with white space trimmed and then the leading check marks and spaces removed.
  The other segments do not occur in the statement, so it holds whether or not one of
  them bears a size.
\<close>

theorem extractMetaInformation_language:
  assumes "parts = Split meta meta_sep" and "3 \<le> length parts"
    and "languagePart = TrimSpace (parts ! 0)"
  shows "(CHR ''['' \<notin> set languagePart \<longrightarrow> fst (extractMetaInformation meta) = [])
       \<and> (\<forall>pre rest. languagePart = pre @ CHR ''['' # rest \<and> CHR ''['' \<notin> set pre \<and> pre \<noteq> [] \<longrightarrow>
            fst (extractMetaInformation meta) = TrimLeftRunes check_cutset (TrimSpace pre))"
proof -
  obtain formatIdx sizeIdx where loop: "meta_loop parts (- 1) (- 1) 1 = (formatIdx, sizeIdx)"
    by (cases "meta_loop parts (- 1) (- 1) 1")
  note unfolded = extract_unfold[OF assms(1,2) loop, folded assms(3)]
  show ?thesis
  proof (intro conjI allI impI)
    assume "CHR ''['' \<notin> set languagePart"
    then have "Index languagePart ''['' = - 1" by (rule Index_absent)
    then show "fst (extractMetaInformation meta) = []"
      by (simp add: unfolded)
  next
    fix pre rest
    assume h: "languagePart = pre @ CHR ''['' # rest \<and> CHR ''['' \<notin> set pre \<and> pre \<noteq> []"
    then have "Index languagePart ''['' = int (length pre)" by (simp add: Index_first)
    moreover have "take (length pre) languagePart = pre" using h by simp
    ultimately show "fst (extractMetaInformation meta) = TrimLeftRunes check_cutset (TrimSpace pre)"
      using h by (simp add: unfolded)
  qed
qed

theorem extractMetaInformation_language_witness:
  "fst (extractMetaInformation ex_no_size) = ''English''
   \<and> fst (extractMetaInformation ex_no_bracket) = []"
proof -
  let ?r = "[[CHR 0xE2, CHR 0x9C, CHR 0x85] @ '' English [en]'', ''EPUB'', ''2015'']"
  let ?s = "[''EPUB'', ''1MB'', ''2015'']"
  have r: "?r = Split ex_no_size meta_sep" by code_simp
  have s: "?s = Split ex_no_bracket meta_sep" by code_simp
  have lp: "[CHR 0xE2, CHR 0x9C, CHR 0x85] @ '' English [en]'' = TrimSpace (?r ! 0)" by code_simp
  have lq: "''EPUB'' = TrimSpace (?s ! 0)" by code_simp
  have v: "TrimLeftRunes check_cutset (TrimSpace ([CHR 0xE2, CHR 0x9C, CHR 0x85] @ '' English '')) = ''English''"
    by code_simp
  have one: "fst (extractMetaInformation ex_no_size) = ''English''"
    using extractMetaInformation_language[OF r _ lp, THEN conjunct2, rule_format,
        of "[CHR 0xE2, CHR 0x9C, CHR 0x85] @ '' English ''" "''en]''"] v
    by simp
  have two: "fst (extractMetaInformation ex_no_bracket) = []"
    using extractMetaInformation_language[OF s _ lq, THEN conjunct1] by simp
  from one two show ?thesis by simp
qed

end
